theory Spec2Isabelle
  imports Main "HOL-Library.Sublist"
begin

section \<open>Sw.js: the service worker of the offline calculator\<close>

text \<open>
  The worker is a set of event listeners over the origin's cache storage (\<open>caches\<close>),
  the network (\<open>fetch\<close>) and whatever the global scope binds to the name
  \<open>localStorage\<close>. Each listener is embedded as a function from the world before
  the event to the outcome of the promise it builds and the world after it. What a
  listener does to the outside (network requests, cache writes and deletions, client
  claiming, replies) is appended to \<open>effects\<close> in the order the promise chain
  performs it. \<open>console.log\<close> lines are left out; \<open>console.error\<close> is kept.
\<close>

subsection \<open>Constants (Sw.js lines 2-15)\<close>

definition CACHE_NAME :: string where
  "CACHE_NAME = ''calculator-offline-v2''"

definition CACHE_VERSION :: string where
  "CACHE_VERSION = ''2.0.0''"

definition OFFLINE_URL :: string where
  "OFFLINE_URL = ''offline.html''"

definition CORE_ASSETS :: "string list" where
  "CORE_ASSETS = [''./'', ''./index.html'', ''./manifest.json'', ''./icon.png'',
     ''./icon-192.png'', ''./icon-512.png'', ''./font-awesome.css'']"

subsection \<open>JavaScript values the listeners look at\<close>

datatype js_error = TypeError | SyntaxError | ReferenceError | QuotaExceededError

text \<open>A settled promise: fulfilled with a value or rejected with an error.\<close>

datatype 'a settled = Fulfilled 'a | Rejected js_error

datatype json = JNull | JBool bool | JNum int | JStr string
  | JArr "json list" | JObj "(string \<times> json) list"

text \<open>\<open>String.prototype.startsWith\<close> and \<open>String.prototype.includes\<close>.\<close>

fun str_startsWith :: "string \<Rightarrow> string \<Rightarrow> bool" where
  "str_startsWith s [] = True"
| "str_startsWith [] (p # ps) = False"
| "str_startsWith (c # cs) (p # ps) = (c = p \<and> str_startsWith cs ps)"

fun str_includes :: "string \<Rightarrow> string \<Rightarrow> bool" where
  "str_includes [] sub = (sub = [])"
| "str_includes (c # cs) sub = (str_startsWith (c # cs) sub \<or> str_includes cs sub)"

text \<open>Truthiness of a value, and reading a property of it (\<open>None\<close> is \<open>undefined\<close>).\<close>

fun truthy :: "json \<Rightarrow> bool" where
  "truthy JNull = False"
| "truthy (JBool b) = b"
| "truthy (JNum n) = (n \<noteq> 0)"
| "truthy (JStr s) = (s \<noteq> [])"
| "truthy (JArr xs) = True"
| "truthy (JObj kvs) = True"

fun prop_type :: "json \<Rightarrow> json option" where
  "prop_type (JObj kvs) = map_of kvs ''type''"
| "prop_type v = None"

text \<open>
  \<open>pending.length\<close>: reading a property of \<open>null\<close> throws; an array and a string
  have a length; an object has one if it carries the key; a number or a boolean has none.
\<close>

fun prop_length :: "json \<Rightarrow> js_error + json option" where
  "prop_length JNull = Inl TypeError"
| "prop_length (JArr xs) = Inr (Some (JNum (int (length xs))))"
| "prop_length (JStr s) = Inr (Some (JNum (int (length s))))"
| "prop_length (JObj kvs) = Inr (map_of kvs ''length'')"
| "prop_length v = Inr None"

subsection \<open>Requests and responses\<close>

text \<open>
  What the listeners read of a request (\<open>http_method\<close> is \<open>request.method\<close>) and of
  a response (\<open>rtype\<close> is \<open>response.type\<close>).
\<close>

record request =
  http_method :: string
  url :: string
  headers :: "(string \<times> string) list"
  destination :: string

record response =
  status :: nat
  statusText :: string
  rtype :: string
  body :: string

text \<open>
  \<open>Headers.get\<close>: the values of every header of that name joined by a comma and a
  space, \<open>null\<close> (here \<open>None\<close>) when there is none. Names are held in lower case.
\<close>

definition headers_get :: "(string \<times> string) list \<Rightarrow> string \<Rightarrow> string option" where
  "headers_get hs name =
     (case map snd (filter (\<lambda>(k, v). k = name) hs) of
        [] \<Rightarrow> None
      | v # vs \<Rightarrow> Some (foldl (\<lambda>a b. a @ '', '' @ b) v vs))"

text \<open>\<open>new Response(body, {status, statusText})\<close>; the defaults are 200 and the empty text.\<close>

definition new_Response :: "string \<Rightarrow> nat \<Rightarrow> string \<Rightarrow> response" where
  "new_Response b st txt = \<lparr>status = st, statusText = txt, rtype = ''default'', body = b\<rparr>"

text \<open>
  A relative reference of this file (\<open>'offline.html'\<close>, \<open>'./icon.png'\<close>, \<open>'./'\<close>) is
  resolved against the directory the worker script is served from.
\<close>

definition resolve_url :: "string \<Rightarrow> string \<Rightarrow> string" where
  "resolve_url base rel = base @ (if str_startsWith rel ''./'' then drop 2 rel else rel)"

definition get_request :: "string \<Rightarrow> request" where
  "get_request u = \<lparr>http_method = ''GET'', url = u, headers = [], destination = ''''\<rparr>"

subsection \<open>The cache storage\<close>

text \<open>
  A cache is the list of its entries (request URL, response) in insertion order; the
  cache storage is the list of the origin's named caches in creation order. A request
  matches an entry when its method is GET and the URLs agree without their fragments,
  and, under \<open>ignoreSearch\<close>, without their query strings. \<open>Cache.match\<close> gives the
  first matching entry of one cache; \<open>caches.match\<close> (\<open>CacheStorage.match\<close>) asks
  every cache of the storage in creation order and gives the first answer. \<open>Vary\<close>
  headers are not modelled.
\<close>

type_synonym cache = "(string \<times> response) list"
type_synonym cache_storage = "(string \<times> cache) list"

definition strip_fragment :: "string \<Rightarrow> string" where
  "strip_fragment u = takeWhile (\<lambda>c. c \<noteq> CHR ''#'') u"

definition strip_search :: "string \<Rightarrow> string" where
  "strip_search u = takeWhile (\<lambda>c. c \<noteq> CHR ''?'') u"

definition match_key :: "bool \<Rightarrow> string \<Rightarrow> string" where
  "match_key ignoreSearch u =
     (if ignoreSearch then strip_search (strip_fragment u) else strip_fragment u)"

definition request_matches :: "bool \<Rightarrow> string \<Rightarrow> string \<Rightarrow> string \<Rightarrow> bool" where
  "request_matches ignoreSearch m u cached =
     (m = ''GET'' \<and> match_key ignoreSearch u = match_key ignoreSearch cached)"

fun cache_match :: "bool \<Rightarrow> string \<Rightarrow> string \<Rightarrow> cache \<Rightarrow> response option" where
  "cache_match ign m u [] = None"
| "cache_match ign m u ((k, r) # es) =
     (if request_matches ign m u k then Some r else cache_match ign m u es)"

fun storage_match :: "bool \<Rightarrow> string \<Rightarrow> string \<Rightarrow> cache_storage \<Rightarrow> response option" where
  "storage_match ign m u [] = None"
| "storage_match ign m u ((n, c) # cs) =
     (case cache_match ign m u c of
        Some r \<Rightarrow> Some r
      | None \<Rightarrow> storage_match ign m u cs)"

text \<open>\<open>caches.open\<close> creates the cache when the storage has none of that name.\<close>

definition storage_open :: "string \<Rightarrow> cache_storage \<Rightarrow> cache_storage" where
  "storage_open name cs = (if map_of cs name = None then cs @ [(name, [])] else cs)"

definition storage_cache :: "string \<Rightarrow> cache_storage \<Rightarrow> cache" where
  "storage_cache name cs = (case map_of cs name of None \<Rightarrow> [] | Some c \<Rightarrow> c)"

definition storage_delete :: "string \<Rightarrow> cache_storage \<Rightarrow> cache_storage" where
  "storage_delete name cs = filter (\<lambda>(n, c). n \<noteq> name) cs"

definition storage_update :: "string \<Rightarrow> (cache \<Rightarrow> cache) \<Rightarrow> cache_storage \<Rightarrow> cache_storage" where
  "storage_update name f cs = map (\<lambda>(n, c). if n = name then (n, f c) else (n, c)) cs"

text \<open>\<open>Cache.put\<close> replaces the entries the request matches and appends the new one.\<close>

definition cache_put :: "string \<Rightarrow> response \<Rightarrow> cache \<Rightarrow> cache" where
  "cache_put u r c = filter (\<lambda>(k, r'). \<not> request_matches False ''GET'' u k) c @ [(u, r)]"

subsection \<open>The world and the environment\<close>

record cache_info =
  cacheSize :: nat
  cacheName :: string
  version :: string

datatype effect =
    NetFetch string
  | CachePut string string
  | CacheDelete string
  | ClientsClaim
  | SkipWaiting
  | ConsoleError
  | StorageSet string string
  | PostMessage nat cache_info

text \<open>
  The world: the cache storage of the origin, the binding of the global name
  \<open>localStorage\<close>, and the effects so far. Web Storage is exposed to windows only:
  the global scope of a service worker, the only scope Sw.js runs in (it listens on
  \<open>self\<close> for install, activate and fetch and reads \<open>self.registration\<close>), binds no
  \<open>localStorage\<close>, and that is \<open>None\<close> here. \<open>Some store\<close> is a scope that binds
  the name to a key-value storage.
\<close>

record world =
  caches :: cache_storage
  localStorage :: "(string \<Rightarrow> string option) option"
  effects :: "effect list"

text \<open>
  What the worker cannot decide: the directory of the worker script, how the network
  answers a request (\<open>fetch\<close> fulfils with a response or rejects), whether the storage
  backend accepts the write of an entry (a quota can refuse it), and \<open>JSON.parse\<close>
  (\<open>None\<close> is its SyntaxError).
\<close>

record env =
  base_url :: string
  net :: "request \<Rightarrow> response settled"
  write_ok :: "string \<Rightarrow> bool"
  json_parse :: "string \<Rightarrow> json option"

definition fetch :: "env \<Rightarrow> request \<Rightarrow> world \<Rightarrow> response settled \<times> world" where
  "fetch e rq w = (net e rq, w\<lparr>effects := effects w @ [NetFetch (url rq)]\<rparr>)"

text \<open>
  \<open>caches.open(name).then(cache => cache.put(request, response))\<close>, not awaited by
  the caller: the cache is opened, and the entry is written unless the backend refuses.
\<close>

definition open_and_put :: "env \<Rightarrow> string \<Rightarrow> string \<Rightarrow> response \<Rightarrow> world \<Rightarrow> world" where
  "open_and_put e name u r w =
     (let cs = storage_open name (caches w);
          w1 = w\<lparr>caches := cs, effects := effects w @ [CachePut name u]\<rparr>
      in if write_ok e u then w1\<lparr>caches := storage_update name (cache_put u r) cs\<rparr> else w1)"

subsection \<open>Cache First strategy (Sw.js lines 79-128)\<close>

text \<open>
  The \<open>.catch\<close> handler of lines 108-126. \<open>headers.get('accept')\<close> is \<open>null\<close> when
  the request has no such header, and \<open>null.includes\<close> throws a TypeError, which
  rejects the promise of the strategy.
\<close>

definition cacheFirst_catch :: "env \<Rightarrow> request \<Rightarrow> world \<Rightarrow> response option settled \<times> world" where
  "cacheFirst_catch e rq w =
     (case headers_get (headers rq) ''accept'' of
        None \<Rightarrow> (Rejected TypeError, w)
      | Some accept \<Rightarrow>
          if str_includes accept ''text/html'' then
            (case storage_match False ''GET'' (resolve_url (base_url e) OFFLINE_URL) (caches w) of
               Some offlineResponse \<Rightarrow> (Fulfilled (Some offlineResponse), w)
             | None \<Rightarrow>
                 (Fulfilled (Some (new_Response ''You are offline. Calculator works offline!'' 200 '''')), w))
          else if destination rq = ''image'' then
            (Fulfilled (storage_match False ''GET'' (resolve_url (base_url e) ''./icon.png'') (caches w)), w)
          else
            (Fulfilled (Some (new_Response ''Offline content not available'' 408 ''Offline'')), w))"

text \<open>
  \<open>fetch\<close> fulfils with a Response object, which is truthy, so the \<open>!response\<close> of
  line 92 never holds and has no branch here.
\<close>

definition cacheFirstStrategy :: "env \<Rightarrow> request \<Rightarrow> world \<Rightarrow> response option settled \<times> world" where
  "cacheFirstStrategy e rq w =
     (case storage_match True (http_method rq) (url rq) (caches w) of
        Some cachedResponse \<Rightarrow> (Fulfilled (Some cachedResponse), w)
      | None \<Rightarrow>
          (case fetch e rq w of
             (Fulfilled response, w1) \<Rightarrow>
               if status response \<noteq> 200 \<or> rtype response \<noteq> ''basic''
               then (Fulfilled (Some response), w1)
               else (Fulfilled (Some response), open_and_put e CACHE_NAME (url rq) response w1)
           | (Rejected error, w1) \<Rightarrow> cacheFirst_catch e rq w1))"

subsection \<open>Network Then Cache strategy (Sw.js lines 131-145)\<close>


subsection \<open>The fetch listener (Sw.js lines 60-76)\<close>



subsection \<open>The install listener (Sw.js lines 18-35)\<close>

text \<open>
  \<open>Cache.addAll\<close> requests every URL of the list, rejects with a TypeError when a
  request fails or its response has a status outside 200-299 or the status 206, and
  writes the entries only when all responses are there; when the backend refuses a
  write the batch is undone and the promise rejects.
\<close>

definition response_ok :: "response \<Rightarrow> bool" where
  "response_ok r = (200 \<le> status r \<and> status r \<le> 299)"

fun collect_responses :: "env \<Rightarrow> string list \<Rightarrow> (string \<times> response) list settled" where
  "collect_responses e [] = Fulfilled []"
| "collect_responses e (u # us) =
     (case net e (get_request u) of
        Rejected err \<Rightarrow> Rejected TypeError
      | Fulfilled r \<Rightarrow>
          if \<not> response_ok r \<or> status r = 206 then Rejected TypeError
          else (case collect_responses e us of
                  Rejected err \<Rightarrow> Rejected err
                | Fulfilled rs \<Rightarrow> Fulfilled ((u, r) # rs)))"

definition addAll :: "env \<Rightarrow> string \<Rightarrow> string list \<Rightarrow> world \<Rightarrow> unit settled \<times> world" where
  "addAll e name rels w =
     (let urls = map (resolve_url (base_url e)) rels;
          w1 = w\<lparr>effects := effects w @ map NetFetch urls\<rparr>
      in case collect_responses e urls of
           Rejected err \<Rightarrow> (Rejected err, w1)
         | Fulfilled entries \<Rightarrow>
             if list_all (\<lambda>(u, r). write_ok e u) entries
             then (Fulfilled (),
                   w1\<lparr>caches := storage_update name
                                   (\<lambda>c. foldl (\<lambda>c' (u, r). cache_put u r c') c entries) (caches w1),
                      effects := effects w1 @ map (\<lambda>(u, r). CachePut name u) entries\<rparr>)
             else (Rejected QuotaExceededError, w1))"

text \<open>
  The result is the promise handed to \<open>event.waitUntil\<close>: the runtime takes the
  install as failed when it rejects and as done when it fulfils. The \<open>.catch\<close> of
  line 31 ends the chain, and its handler returns after \<open>console.error\<close>.
\<close>

definition install_listener :: "env \<Rightarrow> world \<Rightarrow> unit settled \<times> world" where
  "install_listener e w =
     (let w0 = w\<lparr>caches := storage_open CACHE_NAME (caches w)\<rparr>
      in case addAll e CACHE_NAME CORE_ASSETS w0 of
           (Fulfilled u, w1) \<Rightarrow> (Fulfilled (), w1\<lparr>effects := effects w1 @ [SkipWaiting]\<rparr>)
         | (Rejected error, w1) \<Rightarrow> (Fulfilled (), w1\<lparr>effects := effects w1 @ [ConsoleError]\<rparr>))"

subsection \<open>The activate listener (Sw.js lines 38-57)\<close>

definition caches_delete :: "string \<Rightarrow> world \<Rightarrow> world" where
  "caches_delete name w =
     w\<lparr>caches := storage_delete name (caches w), effects := effects w @ [CacheDelete name]\<rparr>"

text \<open>
  \<open>caches.keys()\<close> lists the names; the callback of \<open>map\<close> deletes each name that is
  not \<open>CACHE_NAME\<close>; \<open>clients.claim()\<close> runs in the \<open>then\<close> after \<open>Promise.all\<close>.
\<close>

definition activate_listener :: "world \<Rightarrow> unit settled \<times> world" where
  "activate_listener w =
     (let cacheNames = map fst (caches w);
          w1 = foldl (\<lambda>w' cacheName. if cacheName \<noteq> CACHE_NAME then caches_delete cacheName w' else w')
                 w cacheNames
      in (Fulfilled (), w1\<lparr>effects := effects w1 @ [ClientsClaim]\<rparr>))"

subsection \<open>Background sync (Sw.js lines 148-172)\<close>

text \<open>
  \<open>localStorage.getItem('pendingCalculations') || '[]'\<close> on a bound storage:
  \<open>getItem\<close> gives \<open>null\<close> for a missing key, so \<open>|| '[]'\<close> replaces a missing item
  and an empty text.
\<close>

definition pending_item :: "(string \<Rightarrow> string option) \<Rightarrow> string" where
  "pending_item store =
     (case store ''pendingCalculations'' of
        None \<Rightarrow> ''[]''
      | Some s \<Rightarrow> if s = [] then ''[]'' else s)"

text \<open>
  An exception thrown inside the executor of \<open>new Promise\<close> rejects the promise. The
  first statement of the executor (line 159) evaluates the name \<open>localStorage\<close>: in a
  scope that does not bind it this throws a ReferenceError, before anything is read or
  written.
\<close>

definition syncCalculations :: "env \<Rightarrow> world \<Rightarrow> unit settled \<times> world" where
  "syncCalculations e w =
     (case localStorage w of
        None \<Rightarrow> (Rejected ReferenceError, w)
      | Some store \<Rightarrow>
          (case json_parse e (pending_item store) of
             None \<Rightarrow> (Rejected SyntaxError, w)
           | Some pending \<Rightarrow>
               (case prop_length pending of
                  Inl err \<Rightarrow> (Rejected err, w)
                | Inr len \<Rightarrow>
                    if len = Some (JNum 0) then (Fulfilled (), w)
                    else (Fulfilled (),
                          w\<lparr>localStorage := Some (store(''pendingCalculations'' \<mapsto> ''[]'')),
                            effects := effects w @ [StorageSet ''pendingCalculations'' ''[]'']\<rparr>))))"

text \<open>The listener calls \<open>event.waitUntil\<close> for the one tag only (\<open>None\<close>: no call).\<close>

definition sync_listener :: "env \<Rightarrow> string \<Rightarrow> world \<Rightarrow> unit settled option \<times> world" where
  "sync_listener e tag w =
     (if tag = ''sync-calculations''
      then (case syncCalculations e w of (p, w') \<Rightarrow> (Some p, w'))
      else (None, w))"

subsection \<open>The message listener (Sw.js lines 237-253)\<close>

record message_event =
  data :: json
  ports :: "nat list"

text \<open>
  \<open>event.ports[0]\<close> is \<open>undefined\<close> when no port came with the message; the call of
  \<open>postMessage\<close> on it throws inside the promise chain and nothing is sent.
\<close>

definition message_listener :: "message_event \<Rightarrow> world \<Rightarrow> world" where
  "message_listener ev w =
     (let w1 = (if truthy (data ev) \<and> prop_type (data ev) = Some (JStr ''SKIP_WAITING'')
                then w\<lparr>effects := effects w @ [SkipWaiting]\<rparr> else w)
      in if truthy (data ev) \<and> prop_type (data ev) = Some (JStr ''GET_CACHE_INFO'')
         then (let w2 = w1\<lparr>caches := storage_open CACHE_NAME (caches w1)\<rparr>;
                   keys = map fst (storage_cache CACHE_NAME (caches w2))
               in case ports ev of
                    [] \<Rightarrow> w2
                  | port # rest \<Rightarrow>
                      w2\<lparr>effects := effects w2 @
                           [PostMessage port \<lparr>cacheSize = length keys, cacheName = CACHE_NAME,
                                              version = CACHE_VERSION\<rparr>]\<rparr>)
         else w1)"

subsection \<open>The routing rules as the specification words them\<close>




subsection \<open>A failing core asset\<close>

text \<open>
  A core asset fails when its request is rejected, when its response is one
  \<open>Cache.addAll\<close> refuses, or when the backend refuses to store it.
\<close>

definition asset_fails :: "env \<Rightarrow> string \<Rightarrow> bool" where
  "asset_fails e rel =
     (let u = resolve_url (base_url e) rel
      in case net e (get_request u) of
           Rejected err \<Rightarrow> True
         | Fulfilled r \<Rightarrow> \<not> response_ok r \<or> status r = 206 \<or> \<not> write_ok e u)"

subsection \<open>Concrete environments and worlds\<close>

definition demo_base :: string where
  "demo_base = ''https://calc.example/app/''"

definition demo_response :: "string \<Rightarrow> response" where
  "demo_response b = \<lparr>status = 200, statusText = ''OK'', rtype = ''basic'', body = b\<rparr>"

definition demo_parse :: "string \<Rightarrow> json option" where
  "demo_parse s =
     (if s = ''[]'' then Some (JArr [])
      else if s = ''[7]'' then Some (JArr [JNum 7])
      else None)"

definition offline_env :: env where
  "offline_env = \<lparr>base_url = demo_base, net = (\<lambda>rq. Rejected TypeError),
     write_ok = (\<lambda>u. True), json_parse = demo_parse\<rparr>"


definition empty_world :: world where
  "empty_world = \<lparr>caches = [], localStorage = None, effects = []\<rparr>"

definition stale_world :: world where
  "stale_world =
     \<lparr>caches = [(''calculator-offline-v1'', [(''https://calc.example/app/index.html'', demo_response ''old'')]),
                (''calculator-offline-v2'', [(''https://calc.example/app/index.html'', demo_response ''new'')]),
                (''notes-app-v5'', [])],
      localStorage = None, effects = []\<rparr>"

definition inbox_world :: world where
  "inbox_world =
     \<lparr>caches = [(''calculator-offline-v2'',
                  [(''https://calc.example/app/'', demo_response ''shell''),
                   (''https://calc.example/app/icon.png'', demo_response ''icon'')])],
      localStorage = None,
      effects = []\<rparr>"

definition shadowed_world :: world where
  "shadowed_world =
     \<lparr>caches = [(''notes-app-v5'',
                  [(''https://calc.example/shared/font-awesome.css'', demo_response ''notes copy'')]),
                (''calculator-offline-v2'',
                  [(''https://calc.example/shared/font-awesome.css'', demo_response ''calculator copy'')])],
      localStorage = None, effects = []\<rparr>"

definition photo_request :: request where
  "photo_request = \<lparr>http_method = ''GET'', url = ''https://calc.example/app/photo.png'',
     headers = [], destination = ''image''\<rparr>"

definition page_request :: request where
  "page_request = \<lparr>http_method = ''GET'', url = ''https://calc.example/app/history'',
     headers = [(''accept'', ''text/html,application/xhtml+xml'')], destination = ''document''\<rparr>"


definition offline_page_world :: world where
  "offline_page_world =
     \<lparr>caches = [(''calculator-offline-v2'',
                  [(''https://calc.example/app/offline.html'', demo_response ''offline page''),
                   (''https://calc.example/app/icon.png'', demo_response ''icon'')])],
      localStorage = None, effects = []\<rparr>"


definition image_request :: request where
  "image_request = \<lparr>http_method = ''GET'', url = ''https://calc.example/app/photo.png'',
     headers = [(''accept'', ''image/avif,image/webp,*/*'')], destination = ''image''\<rparr>"

definition script_request :: request where
  "script_request = \<lparr>http_method = ''GET'', url = ''https://calc.example/app/calc.js'',
     headers = [(''accept'', ''*/*'')], destination = ''script''\<rparr>"

section \<open>Properties\<close>

subsection \<open>Lookups in a cache and in the cache storage\<close>











subsection \<open>Cache First: a hit\<close>




subsection \<open>Cache First: a miss answered by the network\<close>



subsection \<open>Cache First: the fallback when the network fails\<close>

text \<open>
  Claim C1. The browser's fetch algorithm gives every request an \<open>accept\<close> header
  before the worker is consulted. For a request with that header, after a miss and a
  network failure, the strategy fulfils with the rung the ladder selects in this order:
  when the header contains \<open>text/html\<close>, the entry \<open>caches.match\<close> finds for the
  offline page, or the literal message when there is none; otherwise, when the
  destination is \<open>image\<close>, what \<open>caches.match\<close> finds for the placeholder image;
  otherwise the response with status 408. Nothing but the network request happens.
\<close>

theorem cacheFirst_fallback_ladder:
  assumes "storage_match True (http_method rq) (url rq) (caches w) = None"
    and "net e rq = Rejected err"
    and "headers_get (headers rq) ''accept'' = Some accept"
  shows "cacheFirstStrategy e rq w =
     (Fulfilled
        (if str_includes accept ''text/html''
         then (case storage_match False ''GET'' (resolve_url (base_url e) OFFLINE_URL) (caches w) of
                 Some page \<Rightarrow> Some page
               | None \<Rightarrow> Some (new_Response ''You are offline. Calculator works offline!'' 200 ''''))
         else if destination rq = ''image''
         then storage_match False ''GET'' (resolve_url (base_url e) ''./icon.png'') (caches w)
         else Some (new_Response ''Offline content not available'' 408 ''Offline'')),
      w\<lparr>effects := effects w @ [NetFetch (url rq)]\<rparr>)"
  using assms
  by (simp add: cacheFirstStrategy_def fetch_def cacheFirst_catch_def split: option.splits)

theorem cacheFirst_fallback_ladder_witness:
  "headers_get (headers page_request) ''accept'' = Some ''text/html,application/xhtml+xml'' \<and>
   headers_get (headers image_request) ''accept'' = Some ''image/avif,image/webp,*/*'' \<and>
   headers_get (headers script_request) ''accept'' = Some ''*/*'' \<and>
   net offline_env page_request = Rejected TypeError \<and>
   storage_match True ''GET'' (url page_request) (caches offline_page_world) = None \<and>
   storage_match True ''GET'' (url image_request) (caches offline_page_world) = None \<and>
   storage_match True ''GET'' (url script_request) (caches offline_page_world) = None \<and>
   cacheFirstStrategy offline_env page_request offline_page_world =
     (Fulfilled (Some (demo_response ''offline page'')),
      offline_page_world\<lparr>effects := [NetFetch ''https://calc.example/app/history'']\<rparr>) \<and>
   cacheFirstStrategy offline_env page_request empty_world =
     (Fulfilled (Some \<lparr>status = 200, statusText = '''', rtype = ''default'',
                        body = ''You are offline. Calculator works offline!''\<rparr>),
      empty_world\<lparr>effects := [NetFetch ''https://calc.example/app/history'']\<rparr>) \<and>
   cacheFirstStrategy offline_env image_request offline_page_world =
     (Fulfilled (Some (demo_response ''icon'')),
      offline_page_world\<lparr>effects := [NetFetch ''https://calc.example/app/photo.png'']\<rparr>) \<and>
   cacheFirstStrategy offline_env script_request offline_page_world =
     (Fulfilled (Some \<lparr>status = 408, statusText = ''Offline'', rtype = ''default'',
                        body = ''Offline content not available''\<rparr>),
      offline_page_world\<lparr>effects := [NetFetch ''https://calc.example/app/calc.js'']\<rparr>)"
proof -
  have accepts:
    "headers_get (headers page_request) ''accept'' = Some ''text/html,application/xhtml+xml''"
    "headers_get (headers image_request) ''accept'' = Some ''image/avif,image/webp,*/*''"
    "headers_get (headers script_request) ''accept'' = Some ''*/*''"
    by (simp_all add: headers_get_def page_request_def image_request_def script_request_def)
  have down: "net offline_env rq = Rejected TypeError" for rq
    by (simp add: offline_env_def)
  have misses:
    "storage_match True (http_method page_request) (url page_request) (caches offline_page_world) = None"
    "storage_match True (http_method image_request) (url image_request) (caches offline_page_world) = None"
    "storage_match True (http_method script_request) (url script_request) (caches offline_page_world) = None"
    "storage_match True (http_method page_request) (url page_request) (caches empty_world) = None"
    by (simp_all add: page_request_def image_request_def script_request_def offline_page_world_def
        empty_world_def request_matches_def match_key_def strip_fragment_def strip_search_def)
  have rungs:
    "storage_match False ''GET'' (resolve_url (base_url offline_env) OFFLINE_URL)
       (caches offline_page_world) = Some (demo_response ''offline page'')"
    "storage_match False ''GET'' (resolve_url (base_url offline_env) OFFLINE_URL)
       (caches empty_world) = None"
    "storage_match False ''GET'' (resolve_url (base_url offline_env) ''./icon.png'')
       (caches offline_page_world) = Some (demo_response ''icon'')"
    by (simp_all add: offline_env_def demo_base_def resolve_url_def OFFLINE_URL_def
        offline_page_world_def empty_world_def request_matches_def match_key_def strip_fragment_def)
  have shape:
    "url page_request = ''https://calc.example/app/history''"
    "url image_request = ''https://calc.example/app/photo.png''"
    "url script_request = ''https://calc.example/app/calc.js''"
    "destination image_request = ''image''" "destination script_request = ''script''"
    "http_method page_request = ''GET''" "http_method image_request = ''GET''"
    "http_method script_request = ''GET''"
    "effects offline_page_world = []" "effects empty_world = []"
    by (simp_all add: page_request_def image_request_def script_request_def
        offline_page_world_def empty_world_def)
  show ?thesis
    using cacheFirst_fallback_ladder [OF misses(1) down accepts(1)]
      cacheFirst_fallback_ladder [OF misses(4) down accepts(1)]
      cacheFirst_fallback_ladder [OF misses(2) down accepts(2)]
      cacheFirst_fallback_ladder [OF misses(3) down accepts(3)]
      accepts down misses rungs shape
    by (simp add: new_Response_def)
qed

text \<open>
  Claim C10. After a miss and a network failure, a request without an \<open>accept\<close>
  header makes the strategy reject with a TypeError, whatever its destination: none of
  the responses of the ladder is produced. With the header present the strategy always
  fulfils.
\<close>

theorem cacheFirst_fallback_needs_accept:
  assumes "storage_match True (http_method rq) (url rq) (caches w) = None"
    and "net e rq = Rejected err"
  shows "(headers_get (headers rq) ''accept'' = None \<longrightarrow>
            cacheFirstStrategy e rq w =
              (Rejected TypeError, w\<lparr>effects := effects w @ [NetFetch (url rq)]\<rparr>))
       \<and> (headers_get (headers rq) ''accept'' \<noteq> None \<longrightarrow>
            (\<exists>answer. fst (cacheFirstStrategy e rq w) = Fulfilled answer))"
  using assms
  by (auto simp: cacheFirstStrategy_def fetch_def cacheFirst_catch_def split: option.splits)

theorem cacheFirst_fallback_needs_accept_witness:
  "storage_match True (http_method photo_request) (url photo_request) (caches empty_world) = None \<and>
   net offline_env photo_request = Rejected TypeError \<and>
   headers_get (headers photo_request) ''accept'' = None \<and>
   cacheFirstStrategy offline_env photo_request empty_world =
     (Rejected TypeError, empty_world\<lparr>effects := [NetFetch ''https://calc.example/app/photo.png'']\<rparr>) \<and>
   storage_match True (http_method page_request) (url page_request) (caches empty_world) = None \<and>
   net offline_env page_request = Rejected TypeError \<and>
   headers_get (headers page_request) ''accept'' = Some ''text/html,application/xhtml+xml'' \<and>
   (\<exists>answer. fst (cacheFirstStrategy offline_env page_request empty_world) = Fulfilled answer)"
  using cacheFirst_fallback_needs_accept [of photo_request empty_world offline_env TypeError]
    cacheFirst_fallback_needs_accept [of page_request empty_world offline_env TypeError]
  by (simp add: photo_request_def page_request_def empty_world_def offline_env_def headers_get_def)

subsection \<open>Installation\<close>

lemma collect_responses_all:
  "collect_responses e urls = Fulfilled entries \<Longrightarrow>
   map fst entries = urls \<and>
   (\<forall>u \<in> set urls. \<exists>r. net e (get_request u) = Fulfilled r \<and> response_ok r \<and> status r \<noteq> 206)"
proof (induction urls arbitrary: entries)
  case Nil
  then show ?case by simp
next
  case (Cons u us)
  from Cons.prems obtain r where r: "net e (get_request u) = Fulfilled r"
    by (cases "net e (get_request u)") auto
  with Cons.prems have ok: "response_ok r" "status r \<noteq> 206"
    by (auto split: if_splits)
  with Cons.prems r obtain rest where rest: "collect_responses e us = Fulfilled rest"
    and entries: "entries = (u, r) # rest"
    by (cases "collect_responses e us") auto
  from Cons.IH [OF rest] r ok entries show ?case by simp
qed

lemma addAll_rejects:
  assumes "\<exists>a \<in> set rels. asset_fails e a"
  shows "\<exists>err. addAll e name rels w =
           (Rejected err, w\<lparr>effects := effects w @ map NetFetch (map (resolve_url (base_url e)) rels)\<rparr>)"
proof (cases "collect_responses e (map (resolve_url (base_url e)) rels)")
  case (Rejected err)
  then show ?thesis by (simp add: addAll_def)
next
  case (Fulfilled entries)
  from assms obtain a where a: "a \<in> set rels" and fails: "asset_fails e a" by blast
  let ?u = "resolve_url (base_url e) a"
  from collect_responses_all [OF Fulfilled] a
  have keys: "map fst entries = map (resolve_url (base_url e)) rels"
    and "\<exists>r. net e (get_request ?u) = Fulfilled r \<and> response_ok r \<and> status r \<noteq> 206"
    by auto
  with fails have "\<not> write_ok e ?u"
    by (auto simp: asset_fails_def Let_def)
  moreover from keys a have "?u \<in> fst ` set entries"
    by (metis image_eqI list.set_map)
  ultimately have "\<not> list_all (\<lambda>(u, r). write_ok e u) entries"
    by (auto simp: list_all_iff)
  with Fulfilled show ?thesis by (simp add: addAll_def)
qed

text \<open>
  Claim C4, amended. When a core asset fails to be fetched or stored, the listener
  logs the error and the promise it handed to \<open>event.waitUntil\<close> fulfils all the
  same, so the runtime is not told of a failure. The current store has been opened and
  no entry has been written, and \<open>skipWaiting\<close> has not been called.
\<close>

theorem install_failure_swallowed:
  assumes "\<exists>a \<in> set CORE_ASSETS. asset_fails e a"
  shows "install_listener e w =
           (Fulfilled (),
            w\<lparr>caches := storage_open CACHE_NAME (caches w),
              effects := effects w @ map NetFetch (map (resolve_url (base_url e)) CORE_ASSETS)
                           @ [ConsoleError]\<rparr>)"
proof -
  from addAll_rejects [OF assms, of CACHE_NAME "w\<lparr>caches := storage_open CACHE_NAME (caches w)\<rparr>"]
  obtain err where "addAll e CACHE_NAME CORE_ASSETS (w\<lparr>caches := storage_open CACHE_NAME (caches w)\<rparr>) =
      (Rejected err, w\<lparr>caches := storage_open CACHE_NAME (caches w),
          effects := effects w @ map NetFetch (map (resolve_url (base_url e)) CORE_ASSETS)\<rparr>)"
    by auto
  then show ?thesis by (simp add: install_listener_def)
qed

theorem install_failure_swallowed_witness:
  "''./index.html'' \<in> set CORE_ASSETS \<and> asset_fails offline_env ''./index.html'' \<and>
   install_listener offline_env empty_world =
     (Fulfilled (),
      \<lparr>caches = [(''calculator-offline-v2'', [])], localStorage = None,
       effects = [NetFetch ''https://calc.example/app/'',
                  NetFetch ''https://calc.example/app/index.html'',
                  NetFetch ''https://calc.example/app/manifest.json'',
                  NetFetch ''https://calc.example/app/icon.png'',
                  NetFetch ''https://calc.example/app/icon-192.png'',
                  NetFetch ''https://calc.example/app/icon-512.png'',
                  NetFetch ''https://calc.example/app/font-awesome.css'',
                  ConsoleError]\<rparr>)"
proof -
  have listed: "''./index.html'' \<in> set CORE_ASSETS"
    by (simp add: CORE_ASSETS_def)
  have unreachable: "asset_fails offline_env ''./index.html''"
    by (simp add: asset_fails_def offline_env_def)
  from listed unreachable have fails: "\<exists>a \<in> set CORE_ASSETS. asset_fails offline_env a"
    by blast
  show ?thesis
    using install_failure_swallowed [OF fails, of empty_world] listed unreachable
    by (simp add: CORE_ASSETS_def offline_env_def empty_world_def
        storage_open_def CACHE_NAME_def resolve_url_def demo_base_def)
qed

text \<open>
  The claim as it is worded fails with the network down: the promise of the install
  listener fulfils, and the last thing the listener does is \<open>console.error\<close>.
\<close>

theorem install_failure_counterexample:
  "''./index.html'' \<in> set CORE_ASSETS \<and> asset_fails offline_env ''./index.html'' \<and>
   fst (install_listener offline_env empty_world) = Fulfilled () \<and>
   last (effects (snd (install_listener offline_env empty_world))) = ConsoleError"
  by (simp add: CORE_ASSETS_def asset_fails_def offline_env_def install_listener_def addAll_def
      empty_world_def)

subsection \<open>Activation\<close>

lemma delete_loop:
  "foldl (\<lambda>w' cacheName. if cacheName \<noteq> CACHE_NAME then caches_delete cacheName w' else w') w ns =
     w\<lparr>caches := filter (\<lambda>(n, c). n = CACHE_NAME \<or> n \<notin> set ns) (caches w),
       effects := effects w @ map CacheDelete (filter (\<lambda>n. n \<noteq> CACHE_NAME) ns)\<rparr>"
proof (induction ns arbitrary: w)
  case Nil
  then show ?case by simp
next
  case (Cons n ns)
  have flt: "filter (\<lambda>(n', c). n' = CACHE_NAME \<or> n' \<notin> set ns) (filter (\<lambda>(n', c). n' \<noteq> n) cs) =
             filter (\<lambda>(n', c). n' = CACHE_NAME \<or> n' \<notin> set (n # ns)) cs" if "n \<noteq> CACHE_NAME" for cs :: cache_storage
    using that by (induction cs) auto
  show ?case
  proof (cases "n = CACHE_NAME")
    case True
    then show ?thesis using Cons.IH [of w]
      by (auto intro!: arg_cong2 [where f = "\<lambda>a b. w\<lparr>caches := a, effects := b\<rparr>"] filter_cong)
  next
    case False
    then show ?thesis using Cons.IH [of "caches_delete n w"] flt [OF False]
      by (simp add: caches_delete_def storage_delete_def)
  qed
qed

lemma only_current:
  "distinct (map fst cs) \<Longrightarrow> map_of cs name = Some c \<Longrightarrow>
   filter (\<lambda>(n, c'). n = name \<or> n \<notin> fst ` set cs) cs = [(name, c)]"
proof (induction cs)
  case Nil
  then show ?case by simp
next
  case (Cons x cs)
  obtain n c' where x: "x = (n, c')" by (cases x)
  show ?case
  proof (cases "n = name")
    case True
    have "filter (\<lambda>(n', c''). n' = name \<or> n' \<notin> fst ` set (x # cs)) cs = []"
      using Cons.prems(1) True x by (force simp: filter_empty_conv)
    then show ?thesis using Cons.prems True x by simp
  next
    case False
    have "filter (\<lambda>(n', c''). n' = name \<or> n' \<notin> fst ` set (x # cs)) cs =
          filter (\<lambda>(n', c''). n' = name \<or> n' \<notin> fst ` set cs) cs"
      using False x Cons.prems(1) by (intro filter_cong) force+
    then show ?thesis using Cons False x by simp
  qed
qed

text \<open>
  Claim C5. When the names of the cache storage are pairwise different and the current
  name \<open>CACHE_NAME\<close> is among them, whatever the number of other stores, the activate
  listener deletes exactly the stores of another name, in the order of
  \<open>caches.keys()\<close>, so that the current store alone remains with its entries, and
  \<open>clients.claim()\<close> is the last effect, after every deletion.
\<close>

theorem activate_keeps_only_current:
  assumes "distinct (map fst (caches w))" and "map_of (caches w) CACHE_NAME = Some c"
  shows "activate_listener w =
           (Fulfilled (),
            w\<lparr>caches := [(CACHE_NAME, c)],
              effects := effects w
                @ map CacheDelete (filter (\<lambda>n. n \<noteq> CACHE_NAME) (map fst (caches w)))
                @ [ClientsClaim]\<rparr>)"
  using only_current [OF assms]
  by (simp add: activate_listener_def delete_loop)

theorem activate_keeps_only_current_witness:
  "distinct (map fst (caches stale_world)) \<and>
   map_of (caches stale_world) CACHE_NAME =
     Some [(''https://calc.example/app/index.html'', demo_response ''new'')] \<and>
   activate_listener stale_world =
     (Fulfilled (),
      stale_world\<lparr>caches := [(CACHE_NAME, [(''https://calc.example/app/index.html'', demo_response ''new'')])],
        effects := [CacheDelete ''calculator-offline-v1'', CacheDelete ''notes-app-v5'', ClientsClaim]\<rparr>)"
  using activate_keeps_only_current
    [of stale_world "[(''https://calc.example/app/index.html'', demo_response ''new'')]"]
  by (simp add: stale_world_def CACHE_NAME_def)

subsection \<open>Routing\<close>








subsection \<open>Network Then Cache: the network fails\<close>







subsection \<open>Background sync\<close>

text \<open>
  What the executor of lines 158-171 does where \<open>localStorage\<close> is bound: a sync event
  with another tag leaves the world as it is; with the tag \<open>sync-calculations\<close>, an
  empty pending list makes the promise fulfil with nothing written, and a pending list
  of one or more items makes it fulfil after the one write that sets the item to
  \<open>[]\<close>.
\<close>

lemma sync_with_bound_storage:
  assumes "localStorage w = Some store"
  shows "(tag \<noteq> ''sync-calculations'' \<longrightarrow> sync_listener e tag w = (None, w))
 \<and> (json_parse e (pending_item store) = Some (JArr []) \<longrightarrow>
      sync_listener e ''sync-calculations'' w = (Some (Fulfilled ()), w))
 \<and> (json_parse e (pending_item store) = Some (JArr queue) \<and> queue \<noteq> [] \<longrightarrow>
      sync_listener e ''sync-calculations'' w =
        (Some (Fulfilled ()),
         w\<lparr>localStorage := Some (store(''pendingCalculations'' \<mapsto> ''[]'')),
           effects := effects w @ [StorageSet ''pendingCalculations'' ''[]'']\<rparr>))"
  using assms by (simp add: sync_listener_def syncCalculations_def)

text \<open>
  Claim C8. The claim has the flush succeed for the tag \<open>sync-calculations\<close>. In the
  global scope of a service worker, which binds no \<open>localStorage\<close>, the promise the
  listener hands to \<open>event.waitUntil\<close> rejects with a ReferenceError instead, whatever
  the pending list was meant to hold, and nothing is read or written. A sync event with
  another tag is ignored.
\<close>

theorem sync_rejects_in_worker_scope:
  assumes "localStorage w = None"
  shows "sync_listener e ''sync-calculations'' w = (Some (Rejected ReferenceError), w)
       \<and> (tag \<noteq> ''sync-calculations'' \<longrightarrow> sync_listener e tag w = (None, w))"
  using assms by (simp add: sync_listener_def syncCalculations_def)

theorem sync_rejects_in_worker_scope_witness:
  "localStorage empty_world = None \<and>
   sync_listener offline_env ''sync-calculations'' empty_world =
     (Some (Rejected ReferenceError), empty_world) \<and>
   sync_listener offline_env ''sync-history'' empty_world = (None, empty_world)"
  using sync_rejects_in_worker_scope [of empty_world offline_env "''sync-history''"]
  by (simp add: empty_world_def)

subsection \<open>Cache information\<close>

text \<open>
  Claim C9. A message whose data has the type \<open>GET_CACHE_INFO\<close> and that comes with a
  port gets one reply on the first port: the number of entries of the current store,
  whatever it is, with \<open>CACHE_NAME\<close> and \<open>CACHE_VERSION\<close>.
\<close>

theorem cache_info_reply:
  assumes "prop_type (data ev) = Some (JStr ''GET_CACHE_INFO'')" and "ports ev = port # rest"
  shows "effects (message_listener ev w) =
           effects w @ [PostMessage port
              \<lparr>cacheSize = length (storage_cache CACHE_NAME (caches w)),
               cacheName = CACHE_NAME, version = CACHE_VERSION\<rparr>]
       \<and> (\<forall>c. map_of (caches w) CACHE_NAME = Some c \<longrightarrow>
             storage_cache CACHE_NAME (caches w) = c)"
proof -
  from assms(1) have t: "truthy (data ev)" by (cases "data ev") auto
  have sc: "storage_cache CACHE_NAME (storage_open CACHE_NAME cs) = storage_cache CACHE_NAME cs"
    for cs by (simp add: storage_cache_def storage_open_def map_add_def)
  have reply: "effects (message_listener ev w) =
           effects w @ [PostMessage port
              \<lparr>cacheSize = length (storage_cache CACHE_NAME (caches w)),
               cacheName = CACHE_NAME, version = CACHE_VERSION\<rparr>]"
    using assms t by (simp add: message_listener_def Let_def sc)
  have "storage_cache CACHE_NAME (caches w) = c" if "map_of (caches w) CACHE_NAME = Some c" for c
    using that by (simp add: storage_cache_def)
  with reply show ?thesis by blast
qed

theorem cache_info_reply_witness:
  "prop_type (JObj [(''type'', JStr ''GET_CACHE_INFO'')]) = Some (JStr ''GET_CACHE_INFO'') \<and>
   effects (message_listener \<lparr>data = JObj [(''type'', JStr ''GET_CACHE_INFO'')], ports = [4]\<rparr> empty_world) =
     [PostMessage 4 \<lparr>cacheSize = 0, cacheName = ''calculator-offline-v2'', version = ''2.0.0''\<rparr>] \<and>
   effects (message_listener \<lparr>data = JObj [(''type'', JStr ''GET_CACHE_INFO'')], ports = [4]\<rparr> shadowed_world) =
     [PostMessage 4 \<lparr>cacheSize = 1, cacheName = ''calculator-offline-v2'', version = ''2.0.0''\<rparr>] \<and>
   effects (message_listener \<lparr>data = JObj [(''type'', JStr ''GET_CACHE_INFO'')], ports = [4]\<rparr> inbox_world) =
     [PostMessage 4 \<lparr>cacheSize = 2, cacheName = ''calculator-offline-v2'', version = ''2.0.0''\<rparr>]"
  using cache_info_reply [of "\<lparr>data = JObj [(''type'', JStr ''GET_CACHE_INFO'')], ports = [4]\<rparr>" 4 "[]" empty_world]
    cache_info_reply [of "\<lparr>data = JObj [(''type'', JStr ''GET_CACHE_INFO'')], ports = [4]\<rparr>" 4 "[]" shadowed_world]
    cache_info_reply [of "\<lparr>data = JObj [(''type'', JStr ''GET_CACHE_INFO'')], ports = [4]\<rparr>" 4 "[]" inbox_world]
  by (simp add: inbox_world_def empty_world_def shadowed_world_def storage_cache_def
      CACHE_NAME_def CACHE_VERSION_def)

end
